theory Spec2Isabelle
  imports Main "HOL-Library.Word"
begin

section \<open>Go values used by the cluster runner\<close>

text \<open>
  Go's \<open>int\<close> is a 64-bit two's-complement integer on the platforms the runner targets:
  \<open>+\<close> and \<open>*\<close> wrap around, comparisons are signed (\<open>sint\<close>).
\<close>

type_synonym go_int = "64 word"

text \<open>
  Three things abort a call: the run-time panic \<open>makeslice: len out of range\<close>, the
  fatal error \<open>out of memory\<close> of the runtime, and a failed Gomega assertion
  (\<open>\<Omega>(...).Should(...)\<close>). They are the error values of the model.
\<close>

datatype go_error = PanicMakesliceLen | FatalOutOfMemory | AssertionFailed

subsection \<open>Decimal rendering: the verb \<open>%d\<close> of \<open>fmt.Sprintf\<close>\<close>

definition digit_char :: "nat \<Rightarrow> char" where
  "digit_char d = ''0123456789'' ! d"

fun show_nat :: "nat \<Rightarrow> string" where
  "show_nat n = (if n < 10 then [digit_char n] else show_nat (n div 10) @ [digit_char (n mod 10)])"

declare show_nat.simps [simp del]

definition Sprintf_d :: "int \<Rightarrow> string" where
  "Sprintf_d k = (if k < 0 then CHR ''-'' # show_nat (nat (- k)) else show_nat (nat k))"


text \<open>
  \<open>make([]string, n)\<close>. The runtime (\<open>makeslice\<close>) first checks the length: it panics
  with \<open>makeslice: len out of range\<close> when \<open>n\<close> is negative or when the \<open>n\<close> string headers,
  of \<open>sizeof_string\<close> bytes each, take more than \<open>maxAlloc\<close> bytes. These are the constants
  of the 64-bit targets: a string header is two words, and \<open>maxAlloc\<close> is \<open>1 << 48\<close>. Only
  then does it allocate, and a machine that cannot provide the memory ends the process
  with the fatal error \<open>out of memory\<close>. Whether the machine has the memory a call
  needs, for the slice and for the strings then stored in it, is not a matter of the
  program: it is the input \<open>mem_ok\<close> of the model, passed down by every function that
  makes a slice, and a run without the memory ends at its \<open>make\<close>. On success the slice
  holds \<open>n\<close> empty strings.
\<close>

definition sizeof_string :: int where
  "sizeof_string = 16"

definition maxAlloc :: int where
  "maxAlloc = 2 ^ 48"

definition make_strings :: "bool \<Rightarrow> go_int \<Rightarrow> go_error + string list" where
  "make_strings mem_ok n =
     (if sint n < 0 \<or> maxAlloc < sizeof_string * sint n then Inl PanicMakesliceLen
      else if \<not> mem_ok then Inl FatalOutOfMemory
      else Inr (replicate (nat (sint n)) []))"

subsection \<open>The counting loop that fills a slice\<close>

text \<open>
  Both packages fill a freshly made slice with the same loop,
  \<^verbatim>\<open>for i := 0; i < n; i++ { xs[i] = f(i) }\<close>,
  where \<open>f(i)\<close> is a \<open>fmt.Sprintf\<close> of the loop variable. \<open>for_fill f n i xs\<close> is that loop
  started at \<open>i\<close>: the comparison is signed, the increment is the machine addition, and
  the store hits index \<open>i\<close> of the slice.
\<close>

lemma sint_succ:
  assumes "sint (i::go_int) < sint (n::go_int)"
  shows "sint (i + 1) = sint i + 1"
proof -
  have hi: "sint n < 2 ^ 63" using sint_lt [of n] by simp
  have lo: "- (2 ^ 63) \<le> sint i" using sint_ge [of i] by simp
  have "sint (i + 1) = signed_take_bit 63 (sint i + 1)"
    by (simp add: sint_word_ariths)
  also have "\<dots> = sint i + 1"
    using assms hi lo by (intro signed_take_bit_int_eq_self) auto
  finally show ?thesis .
qed

function for_fill :: "(go_int \<Rightarrow> string) \<Rightarrow> go_int \<Rightarrow> go_int \<Rightarrow> string list \<Rightarrow> string list" where
  "for_fill f n i xs =
     (if sint i < sint n then for_fill f n (i + 1) (xs[nat (sint i) := f i]) else xs)"
  by pat_completeness auto
termination
  by (relation "measure (\<lambda>(f, n, i, xs). nat (sint n - sint i))") (simp_all add: sint_succ)

declare for_fill.simps [simp del]

section \<open>configfile.go\<close>

definition defaultLogLevel :: string where
  "defaultLogLevel = ''info''"

definition defaultProtocolVersion :: go_int where
  "defaultProtocolVersion = 2"

text \<open>The \<open>iota\<close> block of port offsets.\<close>

definition portOffsetDNS :: go_int where "portOffsetDNS = 0"
definition PortOffsetHTTP :: go_int where "PortOffsetHTTP = 1"
definition portOffsetClientRPC :: go_int where "portOffsetClientRPC = 2"
definition portOffsetSerfLAN :: go_int where "portOffsetSerfLAN = 3"
definition portOffsetSerfWAN :: go_int where "portOffsetSerfWAN = 4"
definition portOffsetServerRPC :: go_int where "portOffsetServerRPC = 5"
definition PortOffsetLength :: go_int where "PortOffsetLength = 6"

lemmas portOffset_defs =
  portOffsetDNS_def PortOffsetHTTP_def portOffsetClientRPC_def portOffsetSerfLAN_def
  portOffsetSerfWAN_def portOffsetServerRPC_def PortOffsetLength_def

record configFile =
  BootstrapExpect :: go_int
  Datacenter :: string
  DataDir :: string
  LogLevel :: string
  NodeName :: string
  Server :: bool
  Ports :: "string \<rightharpoonup> go_int"
  BindAddr :: string
  ProtocolVersion :: go_int
  StartJoin :: "string list"
  RetryJoin :: "string list"
  RejoinAfterLeave :: bool
  DisableRemoteExec :: bool
  DisableUpdateCheck :: bool

definition newConfigFile ::
  "bool \<Rightarrow> string \<Rightarrow> string \<Rightarrow> go_int \<Rightarrow> go_int \<Rightarrow> go_int \<Rightarrow> go_error + configFile" where
  "newConfigFile mem_ok dataDir nodeName clusterStartingPort index numNodes =
     (let startingPort = clusterStartingPort + PortOffsetLength * index;
          ports = [''dns'' \<mapsto> startingPort + portOffsetDNS,
                   ''http'' \<mapsto> startingPort + PortOffsetHTTP,
                   ''rpc'' \<mapsto> startingPort + portOffsetClientRPC,
                   ''serf_lan'' \<mapsto> startingPort + portOffsetSerfLAN,
                   ''serf_wan'' \<mapsto> startingPort + portOffsetSerfWAN,
                   ''server'' \<mapsto> startingPort + portOffsetServerRPC]
      in case make_strings mem_ok numNodes of
           Inl e \<Rightarrow> Inl e
         | Inr made \<Rightarrow>
             let joinAddresses =
                   for_fill
                     (\<lambda>i. ''127.0.0.1:'' @
                          Sprintf_d (sint (clusterStartingPort + i * PortOffsetLength + portOffsetSerfLAN)))
                     numNodes 0 made
             in Inr \<lparr>BootstrapExpect = numNodes,
                     Datacenter = [],
                     DataDir = dataDir,
                     LogLevel = defaultLogLevel,
                     NodeName = nodeName,
                     Server = True,
                     Ports = ports,
                     BindAddr = ''127.0.0.1'',
                     ProtocolVersion = defaultProtocolVersion,
                     StartJoin = joinAddresses,
                     RetryJoin = joinAddresses,
                     RejoinAfterLeave = True,
                     DisableRemoteExec = True,
                     DisableUpdateCheck = True\<rparr>)"

section \<open>consulrunner/configfile.go\<close>

text \<open>
  The package \<open>consulrunner\<close> declares its own constants and its own \<open>configFile\<close>, which
  repeats the fourteen fields above and adds \<open>SessionTTL\<close>; the record below extends the
  first one by that field. \<open>time.Duration\<close> is an \<open>int64\<close>; its method \<open>String\<close> belongs to
  the standard library and is a parameter of the model.
\<close>

type_synonym Duration = "64 word"

definition consulrunner_defaultLogLevel :: string where
  "consulrunner_defaultLogLevel = ''info''"

definition consulrunner_defaultProtocolVersion :: go_int where
  "consulrunner_defaultProtocolVersion = 2"

definition consulrunner_portOffsetDNS :: go_int where "consulrunner_portOffsetDNS = 0"
definition consulrunner_PortOffsetHTTP :: go_int where "consulrunner_PortOffsetHTTP = 1"
definition consulrunner_portOffsetClientRPC :: go_int where "consulrunner_portOffsetClientRPC = 2"
definition consulrunner_portOffsetSerfLAN :: go_int where "consulrunner_portOffsetSerfLAN = 3"
definition consulrunner_portOffsetSerfWAN :: go_int where "consulrunner_portOffsetSerfWAN = 4"
definition consulrunner_portOffsetServerRPC :: go_int where "consulrunner_portOffsetServerRPC = 5"
definition consulrunner_PortOffsetLength :: go_int where "consulrunner_PortOffsetLength = 6"

lemmas consulrunner_portOffset_defs =
  consulrunner_portOffsetDNS_def consulrunner_PortOffsetHTTP_def
  consulrunner_portOffsetClientRPC_def consulrunner_portOffsetSerfLAN_def
  consulrunner_portOffsetSerfWAN_def consulrunner_portOffsetServerRPC_def
  consulrunner_PortOffsetLength_def

record consulrunner_configFile = configFile +
  SessionTTL :: string

definition consulrunner_newConfigFile ::
  "(Duration \<Rightarrow> string) \<Rightarrow> bool \<Rightarrow> string \<Rightarrow> string \<Rightarrow> go_int \<Rightarrow> go_int \<Rightarrow> go_int \<Rightarrow> Duration
     \<Rightarrow> go_error + consulrunner_configFile" where
  "consulrunner_newConfigFile Duration_String mem_ok dataDir nodeName clusterStartingPort index numNodes
       sessionTTL =
     (let startingPort = clusterStartingPort + consulrunner_PortOffsetLength * index;
          ports = [''dns'' \<mapsto> startingPort + consulrunner_portOffsetDNS,
                   ''http'' \<mapsto> startingPort + consulrunner_PortOffsetHTTP,
                   ''rpc'' \<mapsto> startingPort + consulrunner_portOffsetClientRPC,
                   ''serf_lan'' \<mapsto> startingPort + consulrunner_portOffsetSerfLAN,
                   ''serf_wan'' \<mapsto> startingPort + consulrunner_portOffsetSerfWAN,
                   ''server'' \<mapsto> startingPort + consulrunner_portOffsetServerRPC]
      in case make_strings mem_ok numNodes of
           Inl e \<Rightarrow> Inl e
         | Inr made \<Rightarrow>
             let joinAddresses =
                   for_fill
                     (\<lambda>i. ''127.0.0.1:'' @
                          Sprintf_d (sint (clusterStartingPort + i * consulrunner_PortOffsetLength
                                             + consulrunner_portOffsetSerfLAN)))
                     numNodes 0 made
             in Inr \<lparr>BootstrapExpect = numNodes,
                     Datacenter = [],
                     DataDir = dataDir,
                     LogLevel = consulrunner_defaultLogLevel,
                     NodeName = nodeName,
                     Server = True,
                     Ports = ports,
                     BindAddr = ''127.0.0.1'',
                     ProtocolVersion = consulrunner_defaultProtocolVersion,
                     StartJoin = joinAddresses,
                     RetryJoin = joinAddresses,
                     RejoinAfterLeave = True,
                     DisableRemoteExec = True,
                     DisableUpdateCheck = True,
                     SessionTTL = Duration_String sessionTTL\<rparr>)"

section \<open>clusterrunner.go\<close>

text \<open>
  The fields of \<open>ClusterRunner\<close> that the address functions read. The process handles
  and the mutex play no part in them and are left out.
\<close>

record ClusterRunner =
  startingPort :: go_int
  numNodes :: go_int
  running :: bool
  dataDir :: string
  configDir :: string
  scheme :: string




definition Address :: "ClusterRunner \<Rightarrow> string" where
  "Address cr = ''127.0.0.1:'' @ Sprintf_d (sint (startingPort cr + PortOffsetHTTP))"

definition URL :: "ClusterRunner \<Rightarrow> string" where
  "URL cr = scheme cr @ ''://'' @ Address cr"

section \<open>The Session state machine\<close>

text \<open>
  The file that implements \<open>Session\<close> (\<open>NewSession\<close>, \<open>Destroy\<close>, \<open>Recreate\<close>,
  \<open>AcquireLock\<close>, \<open>ID\<close>, \<open>Err\<close> and the session manager) is not among the sources;
  only its test and one caller are. The definitions of this section follow sections 3 to 7
  of the specification, sentence by sentence. Calls are atomic: each runs under the
  mutual-exclusion lock of section 5, so a concurrent history is an interleaving of the
  steps below.
\<close>

text \<open>Modelled from the spec: the missing error type, with the error kinds of section 7.\<close>

datatype session_error =
  BackendUnavailable | BackendRejected | SessionNotFound | SessionInvalid | LockHeldByOther

text \<open>Modelled from the spec: the missing state type, with the states of section 4.2.\<close>

datatype session_state = active | invalidated | destroyed

text \<open>
  Modelled from the spec: the coordination backend behind the facade of section 6, which
  is an external service and missing from the sources. It is reachable or not, answers a
  creation with a protocol-level error or not, lists the live leases, and holds the locked
  keys with their value and owning lease. Lease ids come from a counter.
\<close>

record Backend =
  reachable :: bool
  rejecting :: bool
  leases :: "string list"
  issued :: nat
  locks :: "string \<rightharpoonup> string \<times> string"

text \<open>
  Modelled from the spec: the calls seen by the recording variant of the missing session
  manager (section 9: the manager is a narrow interface with a real and a recording
  variant).
\<close>

datatype manager_call = CreateCall string Duration | RenewCall string | DestroyCall string

text \<open>
  Modelled from the spec: what a Session acts on, missing from the sources as one value:
  the backend and the record of manager calls.
\<close>

record World =
  backend :: Backend
  calls :: "manager_call list"

text \<open>
  Modelled from the spec: the missing manager operation \<open>Create(name, ttl)\<close> of
  section 4.1. It fails with
  \<open>BackendUnavailable\<close> if the backend cannot be reached and with \<open>BackendRejected\<close> on a
  protocol-level error; otherwise the backend lists a new lease and returns its id.
\<close>

definition Manager_Create :: "string \<Rightarrow> Duration \<Rightarrow> World \<Rightarrow> (session_error + string) \<times> World" where
  "Manager_Create nm t w =
     (let w1 = w\<lparr>calls := calls w @ [CreateCall nm t]\<rparr>; b = backend w
      in if \<not> reachable b then (Inl BackendUnavailable, w1)
         else if rejecting b then (Inl BackendRejected, w1)
         else let new = ''lease-'' @ show_nat (issued b)
              in (Inr new, w1\<lparr>backend := b\<lparr>leases := leases b @ [new], issued := Suc (issued b)\<rparr>\<rparr>))"

text \<open>
  Modelled from the spec: the missing manager operation \<open>Renew(sessionID)\<close> of
  section 4.1. It fails with
  \<open>SessionNotFound\<close> if the backend has forgotten the id, with \<open>BackendUnavailable\<close>
  otherwise.
\<close>

definition Manager_Renew :: "string \<Rightarrow> World \<Rightarrow> session_error option \<times> World" where
  "Manager_Renew sid w =
     (let w1 = w\<lparr>calls := calls w @ [RenewCall sid]\<rparr>; b = backend w
      in if \<not> reachable b then (Some BackendUnavailable, w1)
         else if sid \<in> set (leases b) then (None, w1)
         else (Some SessionNotFound, w1))"

text \<open>
  Modelled from the spec: the missing manager operation \<open>Destroy(sessionID)\<close> of
  section 4.1. It releases the lease;
  destroying a lease that is already gone is not an error.
\<close>

definition Manager_Destroy :: "string \<Rightarrow> World \<Rightarrow> session_error option \<times> World" where
  "Manager_Destroy sid w =
     (let w1 = w\<lparr>calls := calls w @ [DestroyCall sid]\<rparr>; b = backend w
      in if \<not> reachable b then (Some BackendUnavailable, w1)
         else (None, w1\<lparr>backend := b\<lparr>leases := removeAll sid (leases b)\<rparr>\<rparr>))"

text \<open>
  Modelled from the spec: the missing facade operation
  \<open>PutIfSessionOwns(key, value, sessionID)\<close> of section 6, the conditional write: it
  succeeds only if the key is unlocked or locked by the calling lease, a lock counting
  while its owner is a live lease.
\<close>

definition PutIfSessionOwns :: "string \<Rightarrow> string \<Rightarrow> string \<Rightarrow> Backend \<Rightarrow> (session_error + bool) \<times> Backend" where
  "PutIfSessionOwns key val sid b =
     (if \<not> reachable b then (Inl BackendUnavailable, b)
      else case locks b key of
             None \<Rightarrow> (Inr True, b\<lparr>locks := (locks b)(key \<mapsto> (val, sid))\<rparr>)
           | Some (v, owner) \<Rightarrow>
               if owner \<noteq> sid \<and> owner \<in> set (leases b) then (Inr False, b)
               else (Inr True, b\<lparr>locks := (locks b)(key \<mapsto> (val, sid))\<rparr>))"

text \<open>
  Modelled from the spec: the missing channel type of \<open>errorSignal\<close> (section 3), a
  single-slot channel. \<open>delivered\<close> is every value ever sent on it, in order; \<open>closed\<close>
  says that it has been closed.
\<close>

record errorSignal_chan =
  delivered :: "session_error option list"
  closed :: bool

text \<open>
  Modelled from the spec: the missing send on \<open>errorSignal\<close>, the one way a Session
  uses the channel (sections 3 and 4.2): if nothing has been sent yet, the value is
  delivered and the channel is then closed; otherwise nothing happens.
\<close>

definition signal :: "session_error option \<Rightarrow> errorSignal_chan \<Rightarrow> errorSignal_chan" where
  "signal v ch =
     (if delivered ch = [] \<and> \<not> closed ch then \<lparr>delivered = [v], closed = True\<rparr> else ch)"

text \<open>Modelled from the spec: the missing type \<open>Session\<close>, with the fields of section 3.\<close>

record Session =
  id' :: string
  name :: string
  ttl :: Duration
  state :: session_state
  errorSignal :: errorSignal_chan

text \<open>
  Modelled from the spec: the missing constructor \<open>NewSession\<close> (section 3 and the
  construction transition of section 4.2). It attempts \<open>Manager.Create\<close>; if that fails because the backend is
  unavailable, construction still succeeds with an empty lease id, and the monitor retries.
  A rejection by the backend is returned to the caller.
\<close>

definition NewSession :: "string \<Rightarrow> Duration \<Rightarrow> World \<Rightarrow> (session_error + Session) \<times> World" where
  "NewSession nm t w =
     (case Manager_Create nm t w of
        (Inr new, w') \<Rightarrow>
          (Inr \<lparr>id' = new, name = nm, ttl = t, state = active,
                errorSignal = \<lparr>delivered = [], closed = False\<rparr>\<rparr>, w')
      | (Inl BackendUnavailable, w') \<Rightarrow>
          (Inr \<lparr>id' = [], name = nm, ttl = t, state = active,
                errorSignal = \<lparr>delivered = [], closed = False\<rparr>\<rparr>, w')
      | (Inl e, w') \<Rightarrow> (Inl e, w'))"

text \<open>Modelled from the spec: the missing accessor \<open>ID()\<close> of section 4.4.\<close>

definition ID :: "Session \<Rightarrow> string" where
  "ID s = id' s"

text \<open>Modelled from the spec: the missing accessor \<open>Err()\<close> of section 4.4.\<close>

definition Err :: "Session \<Rightarrow> errorSignal_chan" where
  "Err s = errorSignal s"

text \<open>
  Modelled from the spec: the missing transition from \<open>active\<close> to \<open>invalidated\<close> of
  section 4.2. The Session sends the triggering value on \<open>errorSignal\<close> and stops renewing.
\<close>

definition invalidate :: "session_error option \<Rightarrow> Session \<Rightarrow> Session" where
  "invalidate v s = s\<lparr>state := invalidated, errorSignal := signal v (errorSignal s)\<rparr>"

text \<open>
  Modelled from the spec: one tick of the missing background monitor (section 4.2). A
  monitor
  that has stopped does nothing. With no lease yet it retries the creation. With a lease
  it renews: \<open>SessionNotFound\<close> invalidates the Session, the value sent being nil if the
  lease was destroyed cleanly by a third party (\<open>clean\<close>) and the error otherwise; an
  unreachable backend invalidates it once the lease's budget is spent (\<open>budget_spent\<close>).
  The two flags are what the monitor learns from the clock and from the backend.
\<close>

definition monitor_tick :: "bool \<Rightarrow> bool \<Rightarrow> Session \<Rightarrow> World \<Rightarrow> Session \<times> World" where
  "monitor_tick budget_spent clean s w =
     (if state s \<noteq> active then (s, w)
      else if id' s = [] then
        (case Manager_Create (name s) (ttl s) w of
           (Inr new, w') \<Rightarrow> (s\<lparr>id' := new\<rparr>, w')
         | (Inl e, w') \<Rightarrow> (s, w'))
      else
        (case Manager_Renew (id' s) w of
           (None, w') \<Rightarrow> (s, w')
         | (Some SessionNotFound, w') \<Rightarrow>
             (invalidate (if clean then None else Some SessionNotFound) s, w')
         | (Some e, w') \<Rightarrow> (if budget_spent then invalidate (Some e) s else s, w')))"

text \<open>
  Modelled from the spec: the best-effort release of the current lease, the part that
  the missing \<open>Destroy\<close> and \<open>Recreate\<close> share (section 4.2): \<open>Manager.Destroy\<close> is
  called if a lease exists, its error is dropped, and the lease id is cleared.
\<close>

definition release_lease :: "Session \<Rightarrow> World \<Rightarrow> Session \<times> World" where
  "release_lease s w =
     (if id' s = [] then (s, w) else (s\<lparr>id' := []\<rparr>, snd (Manager_Destroy (id' s) w)))"

text \<open>
  Modelled from the spec: the missing method \<open>Destroy()\<close> (section 4.2). On a Session
  that is already \<open>destroyed\<close> it is a no-op. Otherwise it calls \<open>Manager.Destroy\<close>
  best-effort, stops the monitor (a \<open>destroyed\<close> Session is not ticked), clears the lease
  id and, if nothing has been sent yet, delivers nil on \<open>errorSignal\<close> and closes it. It
  has no result: errors are not surfaced. (The test of the repository reads \<open>ID()\<close>
  after \<open>Destroy\<close> and compares it with the id passed to \<open>Manager.Destroy\<close>; the sentence
  of the specification is the one written here.)
\<close>

definition Destroy :: "Session \<Rightarrow> World \<Rightarrow> Session \<times> World" where
  "Destroy s w =
     (if state s = destroyed then (s, w)
      else case release_lease s w of
             (s1, w1) \<Rightarrow> (s1\<lparr>state := destroyed, errorSignal := signal None (errorSignal s1)\<rparr>, w1))"

text \<open>
  Modelled from the spec: the missing method \<open>Recreate()\<close> (section 4.2). It destroys
  the current lease if one exists, then performs the creation once: on success the same
  Session is active again with the new id, on failure the error is returned.
\<close>

definition Recreate :: "Session \<Rightarrow> World \<Rightarrow> session_error option \<times> Session \<times> World" where
  "Recreate s w =
     (case release_lease s w of
        (s1, w1) \<Rightarrow>
          (case Manager_Create (name s1) (ttl s1) w1 of
             (Inr new, w2) \<Rightarrow> (None, s1\<lparr>id' := new, state := active\<rparr>, w2)
           | (Inl e, w2) \<Rightarrow> (Some e, s1, w2)))"

text \<open>
  Modelled from the spec: the missing method \<open>AcquireLock(key, value)\<close> (section 4.3),
  a single conditional write under the current lease id. It fails with \<open>SessionInvalid\<close> if the Session has no
  live lease id, with \<open>BackendUnavailable\<close> on a transport failure and with
  \<open>LockHeldByOther\<close> if the write is rejected. The Session itself is not changed.
\<close>

definition AcquireLock :: "Session \<Rightarrow> string \<Rightarrow> string \<Rightarrow> World \<Rightarrow> session_error option \<times> World" where
  "AcquireLock s key val w =
     (if state s \<noteq> active \<or> id' s = [] then (Some SessionInvalid, w)
      else case PutIfSessionOwns key val (id' s) (backend w) of
             (Inl e, b) \<Rightarrow> (Some BackendUnavailable, w\<lparr>backend := b\<rparr>)
           | (Inr False, b) \<Rightarrow> (Some LockHeldByOther, w\<lparr>backend := b\<rparr>)
           | (Inr True, b) \<Rightarrow> (None, w\<lparr>backend := b\<rparr>))"

text \<open>
  Modelled from the spec: everything that can happen during the lifetime of a Session
  (section 5), whose code is missing: a tick of its monitor, a call of \<open>Destroy\<close>,
  \<open>Recreate\<close> or \<open>AcquireLock\<close> by any caller, and the backend going down, coming back,
  or losing a lease out of band.
\<close>

datatype event =
  MonitorTick bool bool
| CallDestroy
| CallRecreate
| CallAcquireLock string string
| BackendDown
| BackendUp
| LeaseLost string

text \<open>
  Modelled from the spec: the effect of one event on the Session and the world, each call
  being atomic under the lock of section 5 (the calls themselves are missing).
\<close>

fun step :: "event \<Rightarrow> Session \<times> World \<Rightarrow> Session \<times> World" where
  "step (MonitorTick budget_spent clean) (s, w) = monitor_tick budget_spent clean s w"
| "step CallDestroy (s, w) = Destroy s w"
| "step CallRecreate (s, w) = snd (Recreate s w)"
| "step (CallAcquireLock key val) (s, w) = (s, snd (AcquireLock s key val w))"
| "step BackendDown (s, w) = (s, w\<lparr>backend := (backend w)\<lparr>reachable := False\<rparr>\<rparr>)"
| "step BackendUp (s, w) = (s, w\<lparr>backend := (backend w)\<lparr>reachable := True\<rparr>\<rparr>)"
| "step (LeaseLost sid) (s, w) =
     (s, w\<lparr>backend := (backend w)\<lparr>leases := removeAll sid (leases (backend w))\<rparr>\<rparr>)"

text \<open>
  Modelled from the spec: a lifetime of the Session after its construction, as the
  sequence of events in the order the lock of section 5 serialises them (the concurrent
  code is missing).
\<close>

fun run :: "event list \<Rightarrow> Session \<times> World \<Rightarrow> Session \<times> World" where
  "run [] c = c"
| "run (e # es) c = run es (step e c)"

section \<open>The loop fills the slice in index order\<close>

lemma for_fill_nth:
  "0 \<le> sint i \<Longrightarrow>
   length (for_fill f n i xs) = length xs \<and>
   (\<forall>j. for_fill f n i xs ! j =
      (if nat (sint i) \<le> j \<and> j < nat (sint n) \<and> j < length xs then f (word_of_nat j) else xs ! j))"
proof (induction f n i xs rule: for_fill.induct)
  case (1 f n i xs)
  show ?case
  proof (cases "sint i < sint n")
    case False
    then show ?thesis using "1.prems" by (auto simp: for_fill.simps)
  next
    case True
    have s: "sint (i + 1) = sint i + 1" using True by (rule sint_succ)
    have i: "word_of_nat (nat (sint i)) = i" using "1.prems" by simp
    let ?ys = "xs[nat (sint i) := f i]"
    have IH: "length (for_fill f n (i + 1) ?ys) = length ?ys \<and>
      (\<forall>j. for_fill f n (i + 1) ?ys ! j =
        (if nat (sint (i + 1)) \<le> j \<and> j < nat (sint n) \<and> j < length ?ys
         then f (word_of_nat j) else ?ys ! j))"
      using "1.IH" [OF True] "1.prems" s by simp
    have unf: "for_fill f n i xs = for_fill f n (i + 1) ?ys"
      using True by (subst for_fill.simps) simp
    show ?thesis
    proof (intro conjI allI)
      show "length (for_fill f n i xs) = length xs"
        using IH unf by simp
    next
      fix j
      show "for_fill f n i xs ! j =
        (if nat (sint i) \<le> j \<and> j < nat (sint n) \<and> j < length xs then f (word_of_nat j) else xs ! j)"
      proof (cases "j = nat (sint i)")
        case True
        then show ?thesis
          using IH unf s i "1.prems" \<open>sint i < sint n\<close> by (auto simp: nth_list_update list_update_beyond)
      next
        case False
        then show ?thesis
          using IH unf s "1.prems" \<open>sint i < sint n\<close> by (auto simp: nth_list_update)
      qed
    qed
  qed
qed

lemma for_fill_make:
  assumes "0 \<le> sint n"
  shows "for_fill f n 0 (replicate (nat (sint n)) []) = map (\<lambda>j. f (word_of_nat j)) [0..<nat (sint n)]"
proof (rule nth_equalityI)
  show "length (for_fill f n 0 (replicate (nat (sint n)) [])) = length (map (\<lambda>j. f (word_of_nat j)) [0..<nat (sint n)])"
    using for_fill_nth [of 0 f n "replicate (nat (sint n)) []"] by simp
next
  fix j assume "j < length (for_fill f n 0 (replicate (nat (sint n)) []))"
  then have "j < nat (sint n)"
    using for_fill_nth [of 0 f n "replicate (nat (sint n)) []"] by simp
  then show "for_fill f n 0 (replicate (nat (sint n)) []) ! j = map (\<lambda>j. f (word_of_nat j)) [0..<nat (sint n)] ! j"
    using for_fill_nth [of 0 f n "replicate (nat (sint n)) []"] by simp
qed

section \<open>When the slice can be made\<close>

text \<open>
  \<open>make\<close> returns the slice exactly when the length is not negative, the headers fit
  under \<open>maxAlloc\<close> and the machine has the memory; otherwise the call ends with the panic
  or with the fatal error, the length check coming first.
\<close>

lemma make_strings_ok:
  assumes "0 \<le> sint n" "sizeof_string * sint n \<le> maxAlloc" "mem_ok"
  shows "make_strings mem_ok n = Inr (replicate (nat (sint n)) [])"
  using assms by (simp add: make_strings_def)


section \<open>Port layout of a node's configuration\<close>

text \<open>
  Within the range \<open>NewClusterRunner\<close> admits for the starting port, and for any node
  index below \<open>2\<^sup>3\<^sup>2\<close>, the machine additions that compute a port do not wrap: the
  port is the integer \<open>p + 6 j + k\<close>.
\<close>

lemma port_no_wrap:
  assumes "0 \<le> sint (p::go_int)" "sint p < 65536" "j < 2 ^ 32" "k \<le> 5"
  shows "sint (p + 6 * word_of_nat j + word_of_nat k) = sint p + 6 * int j + int k"
proof -
  define K where "K = sint p + 6 * int j + int k"
  have e: "p + 6 * word_of_nat j + word_of_nat k = (word_of_int K :: go_int)"
    unfolding K_def
    by (simp only: of_int_add of_int_mult of_int_of_nat_eq of_int_numeral of_int_sint scast_id)
  have "int j < 2 ^ 32" using assms(3) by (metis of_nat_less_numeral_power_cancel_iff)
  then have b: "K < 2 ^ 63" "- (2 ^ 63) \<le> K"
    using assms by (auto simp: K_def)
  have "sint (word_of_int K :: go_int) = signed_take_bit (LENGTH(64) - 1) K"
    by (rule sint_sbintrunc')
  also have "\<dots> = signed_take_bit 63 K" by simp
  also have "\<dots> = K"
    using b by (intro signed_take_bit_int_eq_self) auto
  finally have f: "sint (word_of_int K :: go_int) = K" .
  show ?thesis using f unfolding e [symmetric] unfolding K_def .
qed

text \<open>
  When the slice can be made, \<open>newConfigFile\<close> returns the following configuration; the
  constants are written out. When it cannot, \<open>newConfigFile\<close> ends the way \<open>make\<close> does.
\<close>

lemma newConfigFile_make:
  assumes "0 \<le> sint n" "sizeof_string * sint n \<le> maxAlloc" "mem_ok"
  shows "newConfigFile mem_ok d nm p i n =
    Inr \<lparr>BootstrapExpect = n, Datacenter = [], DataDir = d, LogLevel = ''info'', NodeName = nm,
         Server = True,
         Ports = [''dns'' \<mapsto> p + 6 * i, ''http'' \<mapsto> p + 6 * i + 1, ''rpc'' \<mapsto> p + 6 * i + 2,
                  ''serf_lan'' \<mapsto> p + 6 * i + 3, ''serf_wan'' \<mapsto> p + 6 * i + 4,
                  ''server'' \<mapsto> p + 6 * i + 5],
         BindAddr = ''127.0.0.1'', ProtocolVersion = 2,
         StartJoin = map (\<lambda>j. ''127.0.0.1:'' @ Sprintf_d (sint (p + 6 * word_of_nat j + 3))) [0..<nat (sint n)],
         RetryJoin = map (\<lambda>j. ''127.0.0.1:'' @ Sprintf_d (sint (p + 6 * word_of_nat j + 3))) [0..<nat (sint n)],
         RejoinAfterLeave = True, DisableRemoteExec = True, DisableUpdateCheck = True\<rparr>"
proof -
  note m = make_strings_ok [OF assms]
  show ?thesis
    unfolding newConfigFile_def Let_def m sum.case for_fill_make [OF assms(1)] portOffset_defs
      defaultLogLevel_def defaultProtocolVersion_def
    by (simp add: mult.commute)
qed


text \<open>
  C8, amended. For every starting port \<open>p\<close>, every node index \<open>i\<close> and every node count
  \<open>n\<close> for which \<open>make([]string, n)\<close> returns (\<open>n\<close> is not negative, its \<open>n\<close> string headers
  fit under \<open>maxAlloc\<close>, and the machine has the memory), \<open>newConfigFile\<close> returns a
  configuration whose port table gives \<open>dns\<close>, \<open>http\<close>, \<open>rpc\<close>, \<open>serf_lan\<close>, \<open>serf_wan\<close>
  and \<open>server\<close> the six consecutive ports \<open>p + 6 i\<close> to \<open>p + 6 i + 5\<close> in this order and
  nothing else; \<open>StartJoin\<close> and \<open>RetryJoin\<close> are the same list of \<open>n\<close> addresses, the
  \<open>j\<close>-th being \<open>127.0.0.1:\<close> followed by the decimal rendering of \<open>p + 6 j + 3\<close>, the
  \<open>serf_lan\<close> port of node \<open>j\<close>; and \<open>BootstrapExpect\<close> is \<open>n\<close>. The sums are Go's \<open>int\<close>
  sums.
\<close>

theorem newConfigFile_layout:
  assumes "0 \<le> sint n" and "sizeof_string * sint n \<le> maxAlloc" and "mem_ok"
  shows "\<exists>cfg. newConfigFile mem_ok d nm p i n = Inr cfg
     \<and> Ports cfg = [''dns'' \<mapsto> p + 6 * i, ''http'' \<mapsto> p + 6 * i + 1, ''rpc'' \<mapsto> p + 6 * i + 2,
                     ''serf_lan'' \<mapsto> p + 6 * i + 3, ''serf_wan'' \<mapsto> p + 6 * i + 4,
                     ''server'' \<mapsto> p + 6 * i + 5]
     \<and> StartJoin cfg = RetryJoin cfg
     \<and> length (StartJoin cfg) = nat (sint n)
     \<and> (\<forall>j<nat (sint n). StartJoin cfg ! j = ''127.0.0.1:'' @ Sprintf_d (sint (p + 6 * word_of_nat j + 3)))
     \<and> BootstrapExpect cfg = n"
  using newConfigFile_make [OF assms, of d nm p i] by simp

theorem newConfigFile_layout_witness:
  "0 \<le> sint (3::go_int) \<and> sizeof_string * sint (3::go_int) \<le> maxAlloc \<and>
   (\<exists>cfg. newConfigFile True ''/tmp/consul_data/1'' ''1'' 8500 1 3 = Inr cfg
      \<and> Ports cfg ''dns'' = Some 8506 \<and> Ports cfg ''http'' = Some 8507 \<and> Ports cfg ''rpc'' = Some 8508
      \<and> Ports cfg ''serf_lan'' = Some 8509 \<and> Ports cfg ''serf_wan'' = Some 8510
      \<and> Ports cfg ''server'' = Some 8511
      \<and> StartJoin cfg = RetryJoin cfg \<and> length (StartJoin cfg) = 3
      \<and> StartJoin cfg ! 0 = ''127.0.0.1:8503''
      \<and> StartJoin cfg ! 1 = ''127.0.0.1:8509''
      \<and> StartJoin cfg ! 2 = ''127.0.0.1:8515''
      \<and> BootstrapExpect cfg = 3)"
proof -
  have h: "0 \<le> sint (3::go_int)" by simp
  have h': "sizeof_string * sint (3::go_int) \<le> maxAlloc"
    by (simp add: sizeof_string_def maxAlloc_def)
  from newConfigFile_layout [OF h h' TrueI, of "''/tmp/consul_data/1''" "''1''" 8500 1]
  obtain cfg where c: "newConfigFile True ''/tmp/consul_data/1'' ''1'' 8500 1 3 = Inr cfg"
    and p: "Ports cfg = [''dns'' \<mapsto> 8500 + 6 * 1, ''http'' \<mapsto> 8500 + 6 * 1 + 1, ''rpc'' \<mapsto> 8500 + 6 * 1 + 2,
                     ''serf_lan'' \<mapsto> 8500 + 6 * 1 + 3, ''serf_wan'' \<mapsto> 8500 + 6 * 1 + 4,
                     ''server'' \<mapsto> 8500 + 6 * 1 + 5]"
    and e: "StartJoin cfg = RetryJoin cfg" and l: "length (StartJoin cfg) = nat (sint (3::go_int))"
    and a: "\<forall>j<nat (sint (3::go_int)). StartJoin cfg ! j = ''127.0.0.1:'' @ Sprintf_d (sint (8500 + 6 * word_of_nat j + 3 :: go_int))"
    and b: "BootstrapExpect cfg = 3"
    by blast
  have "(0::nat) < nat (sint (3::go_int))" "(1::nat) < nat (sint (3::go_int))" "(2::nat) < nat (sint (3::go_int))"
    by simp_all
  with a have "StartJoin cfg ! 0 = ''127.0.0.1:'' @ Sprintf_d (sint (8500 + 6 * word_of_nat 0 + 3 :: go_int))"
    "StartJoin cfg ! 1 = ''127.0.0.1:'' @ Sprintf_d (sint (8500 + 6 * word_of_nat 1 + 3 :: go_int))"
    "StartJoin cfg ! 2 = ''127.0.0.1:'' @ Sprintf_d (sint (8500 + 6 * word_of_nat 2 + 3 :: go_int))"
    by blast+
  then have s: "StartJoin cfg ! 0 = ''127.0.0.1:8503''" "StartJoin cfg ! 1 = ''127.0.0.1:8509''"
    "StartJoin cfg ! 2 = ''127.0.0.1:8515''"
    by (simp_all add: Sprintf_d_def show_nat.simps digit_char_def)
  from h h' c p e l b s show ?thesis by simp
qed

text \<open>
  C8 as it is stated, for every node count, does not hold: at the node count \<open>2\<^sup>6\<^sup>2\<close>
  the call \<open>make([]string, numNodes)\<close> panics with \<open>makeslice: len out of range\<close>, and
  \<open>newConfigFile\<close> returns no configuration at all, whatever memory the machine has.
\<close>

theorem newConfigFile_huge_count_panics:
  "0 \<le> sint (4611686018427387904::go_int)
   \<and> newConfigFile True ''/tmp/consul_data/0'' ''0'' 8500 0 4611686018427387904 = Inl PanicMakesliceLen"
  by (simp add: newConfigFile_def make_strings_def sizeof_string_def maxAlloc_def)

section \<open>The two packages build the same configuration\<close>

lemma consulrunner_constants_agree:
  "consulrunner_portOffsetDNS = portOffsetDNS" "consulrunner_PortOffsetHTTP = PortOffsetHTTP"
  "consulrunner_portOffsetClientRPC = portOffsetClientRPC" "consulrunner_portOffsetSerfLAN = portOffsetSerfLAN"
  "consulrunner_portOffsetSerfWAN = portOffsetSerfWAN" "consulrunner_portOffsetServerRPC = portOffsetServerRPC"
  "consulrunner_PortOffsetLength = PortOffsetLength"
  "consulrunner_defaultLogLevel = defaultLogLevel" "consulrunner_defaultProtocolVersion = defaultProtocolVersion"
  by (simp_all add: portOffset_defs consulrunner_portOffset_defs defaultLogLevel_def
      defaultProtocolVersion_def consulrunner_defaultLogLevel_def consulrunner_defaultProtocolVersion_def)

text \<open>
  C9. On the same \<open>dataDir\<close>, \<open>nodeName\<close>, \<open>clusterStartingPort\<close>, \<open>index\<close> and
  \<open>numNodes\<close>, on the same machine, \<open>consulrunner.newConfigFile\<close> fails exactly when
  \<open>consuladapter.newConfigFile\<close> does and in the same way, and otherwise returns the
  configuration the latter returns, every shared field unchanged, extended by
  \<open>SessionTTL\<close>, which holds the string rendering of the extra argument \<open>sessionTTL\<close>.
\<close>

theorem consulrunner_newConfigFile_agrees:
  "consulrunner_newConfigFile Duration_String mem_ok d nm p i n sessionTTL =
     (case newConfigFile mem_ok d nm p i n of
        Inl e \<Rightarrow> Inl e
      | Inr cfg \<Rightarrow> Inr (configFile.extend cfg \<lparr>SessionTTL = Duration_String sessionTTL\<rparr>))"
proof (cases "make_strings mem_ok n")
  case (Inl e)
  then show ?thesis
    by (simp add: consulrunner_newConfigFile_def newConfigFile_def)
next
  case (Inr made)
  then show ?thesis
    unfolding consulrunner_newConfigFile_def newConfigFile_def consulrunner_constants_agree Let_def
    by (simp add: configFile.extend_def)
qed

section \<open>The advertised addresses are the configured http ports\<close>








section \<open>Lifecycle properties of the Session\<close>

text \<open>
  Every step of the lifetime of a Session either leaves \<open>errorSignal\<close> as it is or sends
  on it through \<open>signal\<close>, which does nothing once a value has been delivered.
\<close>

lemma signal_sent: "delivered ch \<noteq> [] \<Longrightarrow> signal v ch = ch"
  by (simp add: signal_def)

lemma signal_length: "length (delivered ch) \<le> 1 \<Longrightarrow> length (delivered (signal v ch)) \<le> 1"
  by (simp add: signal_def)

lemma monitor_tick_signal:
  "errorSignal (fst (monitor_tick b c s w)) = errorSignal s
   \<or> (\<exists>v. errorSignal (fst (monitor_tick b c s w)) = signal v (errorSignal s))"
  by (auto simp: monitor_tick_def invalidate_def split: prod.splits sum.splits option.splits session_error.splits)

lemma release_lease_signal: "errorSignal (fst (release_lease s w)) = errorSignal s"
  by (simp add: release_lease_def)

lemma Destroy_signal:
  "errorSignal (fst (Destroy s w)) = errorSignal s
   \<or> errorSignal (fst (Destroy s w)) = signal None (errorSignal s)"
  using release_lease_signal [of s w]
  by (auto simp: Destroy_def split: prod.splits)

lemma Recreate_signal: "errorSignal (fst (snd (Recreate s w))) = errorSignal s"
  using release_lease_signal [of s w]
  by (auto simp: Recreate_def split: prod.splits sum.splits)

lemma step_signal:
  "errorSignal (fst (step e c)) = errorSignal (fst c)
   \<or> (\<exists>v. errorSignal (fst (step e c)) = signal v (errorSignal (fst c)))"
proof (cases c)
  case (Pair s w)
  show ?thesis
  proof (cases e)
    case (MonitorTick b cl)
    then show ?thesis using Pair monitor_tick_signal [of b cl s w] by simp
  next
    case CallDestroy
    then show ?thesis using Pair Destroy_signal [of s w] by auto
  next
    case CallRecreate
    then show ?thesis using Pair Recreate_signal [of s w] by simp
  qed (simp_all add: Pair)
qed

lemma step_length:
  "length (delivered (errorSignal (fst c))) \<le> 1 \<Longrightarrow> length (delivered (errorSignal (fst (step e c)))) \<le> 1"
  using step_signal [of e c] signal_length by auto

lemma step_sent:
  "delivered (errorSignal (fst c)) \<noteq> [] \<Longrightarrow> errorSignal (fst (step e c)) = errorSignal (fst c)"
  using step_signal [of e c] signal_sent by auto

lemma run_length:
  "length (delivered (errorSignal (fst c))) \<le> 1 \<Longrightarrow> length (delivered (errorSignal (fst (run evs c)))) \<le> 1"
proof (induction evs arbitrary: c)
  case Nil
  then show ?case by simp
next
  case (Cons e es)
  have "length (delivered (errorSignal (fst (step e c)))) \<le> 1"
    using Cons.prems by (rule step_length)
  then show ?case using Cons.IH [of "step e c"] by simp
qed

lemma run_sent:
  "delivered (errorSignal (fst c)) \<noteq> [] \<Longrightarrow> errorSignal (fst (run evs c)) = errorSignal (fst c)"
proof (induction evs arbitrary: c)
  case Nil
  then show ?case by simp
next
  case (Cons e es)
  have "errorSignal (fst (step e c)) = errorSignal (fst c)"
    using Cons.prems by (rule step_sent)
  then show ?case using Cons.IH [of "step e c"] Cons.prems by simp
qed

lemma run_append: "run (xs @ ys) c = run ys (run xs c)"
  by (induction xs arbitrary: c) simp_all

lemma NewSession_fresh:
  "NewSession nm t w = (Inr s, w') \<Longrightarrow> errorSignal s = \<lparr>delivered = [], closed = False\<rparr>"
  by (auto simp: NewSession_def split: prod.splits sum.splits session_error.splits)

text \<open>
  C2. \<open>Destroy\<close> is idempotent. On a Session whose state is already \<open>destroyed\<close> it is
  a no-op: the Session (its state, its lease id and its error channel) and the backend are
  unchanged, no manager call is made, and there is no error to return. A first \<open>Destroy\<close>
  leaves the Session \<open>destroyed\<close>, so every later call, whatever has happened to the
  backend in between, changes nothing.
\<close>

theorem Destroy_idempotent:
  "(state s = destroyed \<longrightarrow> Destroy s w = (s, w))
   \<and> state (fst (Destroy s0 w0)) = destroyed
   \<and> Destroy (fst (Destroy s0 w0)) w = (fst (Destroy s0 w0), w)"
  by (auto simp: Destroy_def split: prod.splits)


theorem Destroy_idempotent_witness:
  "state \<lparr>id' = [], name = ''a-session'', ttl = 20, state = destroyed,
          errorSignal = \<lparr>delivered = [None], closed = True\<rparr>\<rparr> = destroyed
   \<and> Destroy \<lparr>id' = [], name = ''a-session'', ttl = 20, state = destroyed,
          errorSignal = \<lparr>delivered = [None], closed = True\<rparr>\<rparr>
        \<lparr>backend = \<lparr>reachable = True, rejecting = False, leases = [], issued = 1, locks = Map.empty\<rparr>,
         calls = [CreateCall ''a-session'' 20, DestroyCall ''lease-0'']\<rparr>
     = (\<lparr>id' = [], name = ''a-session'', ttl = 20, state = destroyed,
          errorSignal = \<lparr>delivered = [None], closed = True\<rparr>\<rparr>,
        \<lparr>backend = \<lparr>reachable = True, rejecting = False, leases = [], issued = 1, locks = Map.empty\<rparr>,
         calls = [CreateCall ''a-session'' 20, DestroyCall ''lease-0'']\<rparr>)"
  using Destroy_idempotent [of
      "\<lparr>id' = [], name = ''a-session'', ttl = 20, state = destroyed,
        errorSignal = \<lparr>delivered = [None], closed = True\<rparr>\<rparr>"
      "\<lparr>backend = \<lparr>reachable = True, rejecting = False, leases = [], issued = 1, locks = Map.empty\<rparr>,
        calls = [CreateCall ''a-session'' 20, DestroyCall ''lease-0'']\<rparr>"]
  by simp

text \<open>
  C3. The channel returned by \<open>Err()\<close> delivers at most one value over the whole lifetime
  of a Session, whatever the interleaving of monitor ticks, calls and backend events that
  follows its construction; once a value has been delivered the channel never changes
  again; and a \<open>Destroy\<close> that comes after the monitor has reported the invalidation
  sends nothing.
\<close>

theorem errorSignal_at_most_once:
  assumes "NewSession nm t w = (Inr s, w')"
  shows "length (delivered (Err (fst (run evs (s, w'))))) \<le> 1
    \<and> (delivered (Err (fst (run evs (s, w')))) \<noteq> [] \<longrightarrow>
         Err (fst (run (evs @ later) (s, w'))) = Err (fst (run evs (s, w'))))
    \<and> (state (fst (run evs (s, w'))) = invalidated \<and> delivered (Err (fst (run evs (s, w')))) \<noteq> [] \<longrightarrow>
         Err (fst (Destroy (fst (run evs (s, w'))) (snd (run evs (s, w'))))) = Err (fst (run evs (s, w'))))"
proof (intro conjI impI)
  show "length (delivered (Err (fst (run evs (s, w'))))) \<le> 1"
    unfolding Err_def using NewSession_fresh [OF assms] by (intro run_length) simp
next
  assume "delivered (Err (fst (run evs (s, w')))) \<noteq> []"
  then show "Err (fst (run (evs @ later) (s, w'))) = Err (fst (run evs (s, w')))"
    unfolding Err_def run_append by (rule run_sent)
next
  assume "state (fst (run evs (s, w'))) = invalidated \<and> delivered (Err (fst (run evs (s, w')))) \<noteq> []"
  then have "delivered (errorSignal (fst (run evs (s, w')))) \<noteq> []"
    by (simp add: Err_def)
  then show "Err (fst (Destroy (fst (run evs (s, w'))) (snd (run evs (s, w'))))) = Err (fst (run evs (s, w')))"
    unfolding Err_def
    using Destroy_signal [of "fst (run evs (s, w'))" "snd (run evs (s, w'))"] signal_sent by auto
qed

theorem errorSignal_at_most_once_witness:
  "NewSession ''a-session'' 20
     \<lparr>backend = \<lparr>reachable = True, rejecting = False, leases = [], issued = 0, locks = Map.empty\<rparr>,
      calls = []\<rparr>
   = (Inr \<lparr>id' = ''lease-0'', name = ''a-session'', ttl = 20, state = active,
            errorSignal = \<lparr>delivered = [], closed = False\<rparr>\<rparr>,
      \<lparr>backend = \<lparr>reachable = True, rejecting = False, leases = [''lease-0''], issued = 1,
                   locks = Map.empty\<rparr>,
       calls = [CreateCall ''a-session'' 20]\<rparr>)
   \<and> state (fst (run [LeaseLost ''lease-0'', MonitorTick False False]
        (\<lparr>id' = ''lease-0'', name = ''a-session'', ttl = 20, state = active,
            errorSignal = \<lparr>delivered = [], closed = False\<rparr>\<rparr>,
         \<lparr>backend = \<lparr>reachable = True, rejecting = False, leases = [''lease-0''], issued = 1,
                   locks = Map.empty\<rparr>,
          calls = [CreateCall ''a-session'' 20]\<rparr>))) = invalidated
   \<and> delivered (Err (fst (run [LeaseLost ''lease-0'', MonitorTick False False]
        (\<lparr>id' = ''lease-0'', name = ''a-session'', ttl = 20, state = active,
            errorSignal = \<lparr>delivered = [], closed = False\<rparr>\<rparr>,
         \<lparr>backend = \<lparr>reachable = True, rejecting = False, leases = [''lease-0''], issued = 1,
                   locks = Map.empty\<rparr>,
          calls = [CreateCall ''a-session'' 20]\<rparr>)))) = [Some SessionNotFound]
   \<and> delivered (Err (fst (run ([LeaseLost ''lease-0'', MonitorTick False False] @ [CallDestroy, CallRecreate, LeaseLost ''lease-1'', MonitorTick True False])
        (\<lparr>id' = ''lease-0'', name = ''a-session'', ttl = 20, state = active,
            errorSignal = \<lparr>delivered = [], closed = False\<rparr>\<rparr>,
         \<lparr>backend = \<lparr>reachable = True, rejecting = False, leases = [''lease-0''], issued = 1,
                   locks = Map.empty\<rparr>,
          calls = [CreateCall ''a-session'' 20]\<rparr>)))) = [Some SessionNotFound]"
proof -
  let ?init = "\<lparr>backend = \<lparr>reachable = True, rejecting = False, leases = [], issued = 0, locks = Map.empty\<rparr>,
      calls = []\<rparr>"
  let ?s = "\<lparr>id' = ''lease-0'', name = ''a-session'', ttl = 20, state = active,
            errorSignal = \<lparr>delivered = [], closed = False\<rparr>\<rparr>"
  let ?w = "\<lparr>backend = \<lparr>reachable = True, rejecting = False, leases = [''lease-0''], issued = 1,
                   locks = Map.empty\<rparr>,
       calls = [CreateCall ''a-session'' 20]\<rparr>"
  let ?evs = "[LeaseLost ''lease-0'', MonitorTick False False]"
  let ?later = "[CallDestroy, CallRecreate, LeaseLost ''lease-1'', MonitorTick True False]"
  have h: "NewSession ''a-session'' 20 ?init = (Inr ?s, ?w)"
    by (simp add: NewSession_def Manager_Create_def show_nat.simps digit_char_def Let_def)
  have r: "fst (run ?evs (?s, ?w)) =
      \<lparr>id' = ''lease-0'', name = ''a-session'', ttl = 20, state = invalidated,
       errorSignal = \<lparr>delivered = [Some SessionNotFound], closed = True\<rparr>\<rparr>"
    by (simp add: monitor_tick_def Manager_Renew_def invalidate_def signal_def Let_def)
  have d: "delivered (Err (fst (run ?evs (?s, ?w)))) \<noteq> []"
    unfolding r by (simp add: Err_def)
  from errorSignal_at_most_once [OF h, of ?evs ?later] d
  have "Err (fst (run (?evs @ ?later) (?s, ?w))) = Err (fst (run ?evs (?s, ?w)))"
    by blast
  then show ?thesis
    using h unfolding r by (simp add: Err_def)
qed

end
